theory Spec2Isabelle
  imports Main "HOL-Library.Word"
begin

section \<open>Optional-capability activation in cmd/main.go\<close>

text \<open>
  The bootstrap code of \<^verbatim>\<open>cmd/main.go\<close> probes for two optional integrations (CAPI and
  Flux), attaches extra watches when one is installed and starts a CRD watcher when it is
  not. Everything the code does to the outside (API reads, log lines, sleeps, goroutines,
  signals) is recorded as an event of a trace; what the outside answers (the API server,
  the controllers package, the kernel) is read from an environment record.
\<close>

subsection \<open>Errors\<close>

datatype status_reason =
    StatusReasonNotFound
  | StatusReasonForbidden
  | StatusReasonTimeout
  | StatusReasonInternalError
  | StatusReasonUnknown

datatype error =
    StatusError status_reason
  | ContextCanceled
  | ConnectionRefused
  | Errno nat

text \<open>\<^verbatim>\<open>apierrors.IsNotFound\<close>: the error is an API status whose reason is not-found.\<close>

fun IsNotFound :: "error \<Rightarrow> bool" where
  "IsNotFound (StatusError r) = (r = StatusReasonNotFound)"
| "IsNotFound ContextCanceled = False"
| "IsNotFound ConnectionRefused = False"
| "IsNotFound (Errno n) = False"

subsection \<open>Values handed around by main\<close>

text \<open>The shutdown context, as the callee finds it: still live, or already cancelled.\<close>

datatype ctx = CtxLive | CtxCancelled

datatype controller_kind = ClusterProfileKind | ProfileKind | ClusterSummaryKind

text \<open>What \<^verbatim>\<open>SetupWithManager\<close> returns: the controller built for a kind.\<close>

datatype controller = Controller controller_kind

datatype ClusterProfileReconciler = ClusterProfileReconciler
datatype ProfileReconciler = ProfileReconciler
datatype ClusterSummaryReconciler = ClusterSummaryReconciler

datatype signal = SIGTERM | SIGKILL | SIGINT

record GroupVersionKind =
  Group :: string
  Version :: string
  Kind :: string

text \<open>The two handlers main.go passes to the CRD watcher, by name.\<close>

datatype crd_handler = CapiCRDHandler | FluxCRDHandler

text \<open>The goroutines the file starts with \<^verbatim>\<open>go\<close>, with the arguments they get.\<close>

datatype goroutine =
    GoWatchCustomResourceDefinition ctx crd_handler
  | GoCapiWatchers ctx "ClusterProfileReconciler option" "controller option"
      "ProfileReconciler option" "controller option"
      ClusterSummaryReconciler "controller option"
  | GoFluxWatchers ctx ClusterSummaryReconciler "controller option"

subsection \<open>Events and the environment\<close>

datatype event =
    EvGet ctx string
  | EvInfo string "error option"
  | EvError error string
  | EvSleep nat
  | EvGo goroutine
  | EvWatchForCAPI controller_kind "controller option"
  | EvWatchForFlux "controller option"
  | EvKill nat signal
  | EvSetupWithManager controller_kind
  | EvStartManager ctx
  | EvExit nat

text \<open>
  The environment answers every call that leaves main.go. A reply may depend on how many
  times the same call was made before, so that a CRD can appear or vanish between two
  probes and a registration can fail once and succeed later.
\<close>

record env =
  get_reply :: "ctx \<Rightarrow> string \<Rightarrow> nat \<Rightarrow> error option"
  capi_watch_reply :: "controller_kind \<Rightarrow> nat \<Rightarrow> error option"
  flux_watch_reply :: "nat \<Rightarrow> error option"
  getpid :: nat
  kill_reply :: "nat \<Rightarrow> signal \<Rightarrow> error option"
  init_scheme_reply :: "error option"
  new_manager_reply :: "error option"
  setup_reply :: "controller_kind \<Rightarrow> error option"
  healthz_reply :: "error option"
  readyz_reply :: "error option"
  indexes_reply :: "error option"
  start_reply :: "error option"
  signal_ctx :: ctx

text \<open>\<^verbatim>\<open>clusterv1.GroupVersion.Group\<close> and \<^verbatim>\<open>sourcev1.GroupVersion.Group\<close>, constants of the
  imported API packages.\<close>

definition clusterv1_Group :: string where
  "clusterv1_Group = ''cluster.x-k8s.io''"

definition sourcev1_Group :: string where
  "sourcev1_Group = ''source.toolkit.fluxcd.io''"

subsection \<open>Calls that leave the file\<close>

text \<open>\<^verbatim>\<open>c.Get(ctx, types.NamespacedName{Name: name}, crd)\<close>: one point read. The reply is the
  environment's, for this context, this name and the number of earlier reads of it.\<close>

definition client_Get :: "env \<Rightarrow> ctx \<Rightarrow> string \<Rightarrow> event list \<Rightarrow> error option \<times> event list" where
  "client_Get e c name t =
     (get_reply e c name (count_list t (EvGet c name)), t @ [EvGet c name])"

definition log_Info :: "string \<Rightarrow> error option \<Rightarrow> event list \<Rightarrow> event list" where
  "log_Info msg err t = t @ [EvInfo msg err]"

definition log_Error :: "error \<Rightarrow> string \<Rightarrow> event list \<Rightarrow> event list" where
  "log_Error err msg t = t @ [EvError err msg]"

definition os_Exit :: "nat \<Rightarrow> event list \<Rightarrow> event list" where
  "os_Exit code t = t @ [EvExit code]"

text \<open>\<^verbatim>\<open>time.Sleep(d)\<close>, in seconds. It takes no context.\<close>

definition time_Sleep :: "nat \<Rightarrow> event list \<Rightarrow> event list" where
  "time_Sleep secs t = t @ [EvSleep secs]"

text \<open>The \<^verbatim>\<open>go\<close> statement: the goroutine is started, the caller goes on at once.\<close>

definition go :: "goroutine \<Rightarrow> event list \<Rightarrow> event list" where
  "go g t = t @ [EvGo g]"

definition WatchForCAPI ::
  "env \<Rightarrow> controller_kind \<Rightarrow> controller option \<Rightarrow> event list \<Rightarrow> error option \<times> event list" where
  "WatchForCAPI e k ctl t =
     (capi_watch_reply e k (count_list t (EvWatchForCAPI k ctl)), t @ [EvWatchForCAPI k ctl])"

definition WatchForFlux ::
  "env \<Rightarrow> controller option \<Rightarrow> event list \<Rightarrow> error option \<times> event list" where
  "WatchForFlux e ctl t =
     (flux_watch_reply e (count_list t (EvWatchForFlux ctl)), t @ [EvWatchForFlux ctl])"

definition syscall_Kill ::
  "env \<Rightarrow> nat \<Rightarrow> signal \<Rightarrow> event list \<Rightarrow> error option \<times> event list" where
  "syscall_Kill e pid sig t = (kill_reply e pid sig, t @ [EvKill pid sig])"

subsection \<open>The CRD handlers and the probers\<close>

text \<open>A handler either returns (\<open>Inr\<close>, with the trace) or panics (\<open>Inl\<close>, with the
  message and the trace up to the panic).\<close>

definition capiCRDHandler ::
  "env \<Rightarrow> GroupVersionKind \<Rightarrow> event list \<Rightarrow> (string \<times> event list) + event list" where
  "capiCRDHandler e gvk t =
     (if Group gvk = clusterv1_Group then
        (case syscall_Kill e (getpid e) SIGTERM t of
           (Some killErr, t') \<Rightarrow> Inl (''kill -TERM failed'', t')
         | (None, t') \<Rightarrow> Inr t')
      else Inr t)"

definition fluxCRDHandler ::
  "env \<Rightarrow> GroupVersionKind \<Rightarrow> event list \<Rightarrow> (string \<times> event list) + event list" where
  "fluxCRDHandler e gvk t =
     (if Group gvk = sourcev1_Group then
        (case syscall_Kill e (getpid e) SIGTERM t of
           (Some killErr, t') \<Rightarrow> Inl (''kill -TERM failed'', t')
         | (None, t') \<Rightarrow> Inr t')
      else Inr t)"

text \<open>The Go functions return \<^verbatim>\<open>(bool, error)\<close>; the model adds the trace.\<close>

definition isCAPIInstalled :: "env \<Rightarrow> ctx \<Rightarrow> event list \<Rightarrow> (bool \<times> error option) \<times> event list" where
  "isCAPIInstalled e c t =
     (case client_Get e c ''clusters.cluster.x-k8s.io'' t of
        (Some err, t') \<Rightarrow>
          if IsNotFound err then ((False, None), t') else ((False, Some err), t')
      | (None, t') \<Rightarrow> ((True, None), t'))"

definition isFluxInstalled :: "env \<Rightarrow> ctx \<Rightarrow> event list \<Rightarrow> (bool \<times> error option) \<times> event list" where
  "isFluxInstalled e c t =
     (case client_Get e c ''gitrepositories.source.toolkit.fluxcd.io'' t of
        (Some err, t') \<Rightarrow>
          if IsNotFound err then ((False, None), t') else ((False, Some err), t')
      | (None, t') \<Rightarrow> ((True, None), t'))"

subsection \<open>The loop \<^verbatim>\<open>for { ... }\<close>\<close>

text \<open>
  One pass through the body of a \<^verbatim>\<open>for { }\<close> loop either comes back to the top
  (\<^verbatim>\<open>continue\<close>, or the end of the body) or leaves the function (\<^verbatim>\<open>return\<close>). The loop has
  no condition, so it is a partial function: \<open>None\<close> is a loop that never returns.
\<close>

datatype 'a flow = Continue 'a | Return 'a

partial_function (option) for_loop :: "('s \<Rightarrow> 's flow) \<Rightarrow> 's \<Rightarrow> 's option" where
  "for_loop body s =
     (case body s of
        Return s' \<Rightarrow> Some s'
      | Continue s' \<Rightarrow> for_loop body s')"

declare for_loop.simps [code]

text \<open>The first \<open>n\<close> passes of the same loop: where it stands then, or what it returned.\<close>

fun passes :: "nat \<Rightarrow> ('s \<Rightarrow> 's flow) \<Rightarrow> 's \<Rightarrow> 's flow" where
  "passes 0 body s = Continue s"
| "passes (Suc n) body s =
     (case body s of
        Return s' \<Rightarrow> Return s'
      | Continue s' \<Rightarrow> passes n body s')"

subsection \<open>The two pipelines\<close>

text \<open>The local variable \<^verbatim>\<open>retries\<close> (a Go \<^verbatim>\<open>int\<close>, 64 bits, compared signed) and the trace.\<close>

record lstate =
  retries :: "64 word"
  trace :: "event list"

definition maxRetries :: "64 word" where
  "maxRetries = 20"

text \<open>The branch of \<^verbatim>\<open>capiWatchers\<close> taken when CAPI is present: up to three registrations,
  each leaving the pass with \<^verbatim>\<open>continue\<close> when it fails.\<close>

definition capi_present ::
  "env \<Rightarrow> ClusterProfileReconciler option \<Rightarrow> controller option \<Rightarrow>
   ProfileReconciler option \<Rightarrow> controller option \<Rightarrow>
   ClusterSummaryReconciler \<Rightarrow> controller option \<Rightarrow> lstate \<Rightarrow> lstate flow" where
  "capi_present e clusterProfileReconciler clusterProfileController
       profileReconciler profileController
       clusterSummaryReconciler clusterSummaryController s =
     (let t1 = log_Info ''CAPI present.'' None (trace s) in
      case (if clusterProfileReconciler \<noteq> None then
              (case WatchForCAPI e ClusterProfileKind clusterProfileController
                      (log_Info ''start clusterProfile CAPI watcher.'' None t1) of
                 (Some err, t2) \<Rightarrow>
                   Inl (log_Info ''failed to start clusterProfile CAPI watcher: %v'' (Some err) t2)
               | (None, t2) \<Rightarrow> Inr t2)
            else Inr t1) of
        Inl t2 \<Rightarrow> Continue (s\<lparr>trace := t2\<rparr>)
      | Inr t2 \<Rightarrow>
         (case (if profileReconciler \<noteq> None then
                  (case WatchForCAPI e ProfileKind profileController
                          (log_Info ''start profile CAPI watcher.'' None t2) of
                     (Some err, t3) \<Rightarrow>
                       Inl (log_Info ''failed to start profile CAPI watcher: %v'' (Some err) t3)
                   | (None, t3) \<Rightarrow> Inr t3)
                else Inr t2) of
            Inl t3 \<Rightarrow> Continue (s\<lparr>trace := t3\<rparr>)
          | Inr t3 \<Rightarrow>
             (case WatchForCAPI e ClusterSummaryKind clusterSummaryController t3 of
                (Some err, t4) \<Rightarrow> Continue (s\<lparr>trace := t4\<rparr>)
              | (None, t4) \<Rightarrow> Return (s\<lparr>trace := t4\<rparr>))))"

text \<open>One pass through the loop of \<^verbatim>\<open>capiWatchers\<close>.\<close>

definition capi_pass ::
  "env \<Rightarrow> ctx \<Rightarrow> ClusterProfileReconciler option \<Rightarrow> controller option \<Rightarrow>
   ProfileReconciler option \<Rightarrow> controller option \<Rightarrow>
   ClusterSummaryReconciler \<Rightarrow> controller option \<Rightarrow> lstate \<Rightarrow> lstate flow" where
  "capi_pass e c clusterProfileReconciler clusterProfileController
       profileReconciler profileController
       clusterSummaryReconciler clusterSummaryController s =
     (case isCAPIInstalled e c (trace s) of
        ((capiPresent, Some err), t1) \<Rightarrow>
          Continue
            (if retries s <s maxRetries then
               \<lparr>retries = retries s + 1,
                trace = time_Sleep 1
                  (log_Info ''failed to verify if CAPI is present: %v'' (Some err) t1)\<rparr>
             else \<lparr>retries = retries s + 1, trace = t1\<rparr>)
      | ((capiPresent, None), t1) \<Rightarrow>
          if \<not> capiPresent then
            Return (s\<lparr>trace :=
              go (GoWatchCustomResourceDefinition c CapiCRDHandler)
                (log_Info ''CAPI currently not present. Starting CRD watcher'' None t1)\<rparr>)
          else
            capi_present e clusterProfileReconciler clusterProfileController
              profileReconciler profileController
              clusterSummaryReconciler clusterSummaryController (s\<lparr>trace := t1\<rparr>))"

definition capiWatchers ::
  "env \<Rightarrow> ctx \<Rightarrow> ClusterProfileReconciler option \<Rightarrow> controller option \<Rightarrow>
   ProfileReconciler option \<Rightarrow> controller option \<Rightarrow>
   ClusterSummaryReconciler \<Rightarrow> controller option \<Rightarrow> event list \<Rightarrow> event list option" where
  "capiWatchers e c clusterProfileReconciler clusterProfileController
       profileReconciler profileController
       clusterSummaryReconciler clusterSummaryController t =
     map_option trace
       (for_loop
          (capi_pass e c clusterProfileReconciler clusterProfileController
             profileReconciler profileController
             clusterSummaryReconciler clusterSummaryController)
          \<lparr>retries = 0, trace = t\<rparr>)"

text \<open>One pass through the loop of \<^verbatim>\<open>fluxWatchers\<close>.\<close>

definition flux_pass ::
  "env \<Rightarrow> ctx \<Rightarrow> ClusterSummaryReconciler \<Rightarrow> controller option \<Rightarrow> lstate \<Rightarrow> lstate flow" where
  "flux_pass e c clusterSummaryReconciler clusterSummaryController s =
     (case isFluxInstalled e c (trace s) of
        ((fluxPresent, Some err), t1) \<Rightarrow>
          Continue
            (if retries s <s maxRetries then
               \<lparr>retries = retries s + 1,
                trace = time_Sleep 1
                  (log_Info ''failed to verify if Flux is present: %v'' (Some err) t1)\<rparr>
             else \<lparr>retries = retries s + 1, trace = t1\<rparr>)
      | ((fluxPresent, None), t1) \<Rightarrow>
          if \<not> fluxPresent then
            Return (s\<lparr>trace :=
              go (GoWatchCustomResourceDefinition c FluxCRDHandler)
                (log_Info ''Flux currently not present. Starting CRD watcher'' None t1)\<rparr>)
          else
            (case WatchForFlux e clusterSummaryController
                    (log_Info ''Flux present.'' None t1) of
               (Some err, t2) \<Rightarrow> Continue (s\<lparr>trace := t2\<rparr>)
             | (None, t2) \<Rightarrow> Return (s\<lparr>trace := t2\<rparr>)))"

definition fluxWatchers ::
  "env \<Rightarrow> ctx \<Rightarrow> ClusterSummaryReconciler \<Rightarrow> controller option \<Rightarrow>
   event list \<Rightarrow> event list option" where
  "fluxWatchers e c clusterSummaryReconciler clusterSummaryController t =
     map_option trace
       (for_loop (flux_pass e c clusterSummaryReconciler clusterSummaryController)
          \<lparr>retries = 0, trace = t\<rparr>)"


subsection \<open>main\<close>

text \<open>\<^verbatim>\<open>ctrl.SetupSignalHandler()\<close>: the context cancelled by the shutdown signal, in the state
  the environment gives it.\<close>

definition SetupSignalHandler :: "env \<Rightarrow> ctx" where
  "SetupSignalHandler e = signal_ctx e"

text \<open>\<^verbatim>\<open>r.SetupWithManager(mgr)\<close> returns \<^verbatim>\<open>(controller, error)\<close>.\<close>

definition SetupWithManager ::
  "env \<Rightarrow> controller_kind \<Rightarrow> event list \<Rightarrow> (error + controller) \<times> event list" where
  "SetupWithManager e k t =
     ((case setup_reply e k of Some err \<Rightarrow> Inl err | None \<Rightarrow> Inr (Controller k)),
      t @ [EvSetupWithManager k])"

definition mgr_Start :: "env \<Rightarrow> ctx \<Rightarrow> event list \<Rightarrow> error option \<times> event list" where
  "mgr_Start e c t = (start_reply e, t @ [EvStartManager c])"

text \<open>\<open>Inl\<close> is a trace that ended in \<^verbatim>\<open>os.Exit\<close>, \<open>Inr\<close> one that goes on.\<close>

definition setupIndexes :: "env \<Rightarrow> event list \<Rightarrow> event list + event list" where
  "setupIndexes e t =
     (case indexes_reply e of
        Some err \<Rightarrow> Inl (os_Exit 1 (log_Error err ''unable to setup indexes'' t))
      | None \<Rightarrow> Inr t)"

definition setupChecks :: "env \<Rightarrow> event list \<Rightarrow> event list + event list" where
  "setupChecks e t =
     (case healthz_reply e of
        Some err \<Rightarrow> Inl (os_Exit 1 (log_Error err ''unable to set up health check'' t))
      | None \<Rightarrow>
         (case readyz_reply e of
            Some err \<Rightarrow> Inl (os_Exit 1 (log_Error err ''unable to set up ready check'' t))
          | None \<Rightarrow> Inr t))"

definition startWatchers ::
  "ctx \<Rightarrow> ClusterProfileReconciler option \<Rightarrow> controller option \<Rightarrow>
   ProfileReconciler option \<Rightarrow> controller option \<Rightarrow>
   ClusterSummaryReconciler \<Rightarrow> controller option \<Rightarrow> event list \<Rightarrow> event list" where
  "startWatchers c clusterProfileReconciler clusterProfileController
       profileReconciler profileController
       clusterSummaryReconciler clusterSummaryController t =
     go (GoFluxWatchers c clusterSummaryReconciler clusterSummaryController)
       (go (GoCapiWatchers c clusterProfileReconciler clusterProfileController
              profileReconciler profileController
              clusterSummaryReconciler clusterSummaryController) t)"

text \<open>
  The part of \<^verbatim>\<open>main\<close> under \<^verbatim>\<open>if shardKey == ""\<close>: the four variables stay nil unless the
  shard key is empty. \<open>Inl\<close> is a trace that ended in \<^verbatim>\<open>os.Exit(1)\<close>.
\<close>

definition profile_controllers ::
  "env \<Rightarrow> string \<Rightarrow> event list \<Rightarrow>
   event list +
   ((ClusterProfileReconciler option \<times> controller option \<times>
     ProfileReconciler option \<times> controller option) \<times> event list)" where
  "profile_controllers e shardKey t =
     (if shardKey = [] then
        (case SetupWithManager e ClusterProfileKind t of
           (Inl err, t1) \<Rightarrow> Inl (os_Exit 1 (log_Error err ''unable to create controller'' t1))
         | (Inr clusterProfileController, t1) \<Rightarrow>
            (case SetupWithManager e ProfileKind t1 of
               (Inl err, t2) \<Rightarrow>
                 Inl (os_Exit 1 (log_Error err ''unable to create controller'' t2))
             | (Inr profileController, t2) \<Rightarrow>
                 Inr ((Some ClusterProfileReconciler, Some clusterProfileController,
                       Some ProfileReconciler, Some profileController), t2)))
      else Inr ((None, None, None, None), t))"

text \<open>The trace of the main goroutine. The flag \<^verbatim>\<open>--shard-key\<close> is the second argument.\<close>

definition main :: "env \<Rightarrow> string \<Rightarrow> event list" where
  "main e shardKey =
     (case init_scheme_reply e of
        Some err \<Rightarrow> os_Exit 1 []
      | None \<Rightarrow>
     (case new_manager_reply e of
        Some err \<Rightarrow> os_Exit 1 (log_Error err ''unable to start manager'' [])
      | None \<Rightarrow>
     (let c = SetupSignalHandler e in
      case profile_controllers e shardKey [] of
        Inl t \<Rightarrow> t
      | Inr ((clusterProfileReconciler, clusterProfileController,
              profileReconciler, profileController), t) \<Rightarrow>
     (case SetupWithManager e ClusterSummaryKind t of
        (Inl err, t1) \<Rightarrow> os_Exit 1 (log_Error err ''unable to create controller'' t1)
      | (Inr clusterSummaryController, t1) \<Rightarrow>
     (case setupChecks e t1 of
        Inl t2 \<Rightarrow> t2
      | Inr t2 \<Rightarrow>
     (case setupIndexes e t2 of
        Inl t3 \<Rightarrow> t3
      | Inr t3 \<Rightarrow>
     (case mgr_Start e c
             (log_Info ''starting manager'' None
                (startWatchers c clusterProfileReconciler clusterProfileController
                   profileReconciler profileController
                   ClusterSummaryReconciler (Some clusterSummaryController) t3)) of
        (Some err, t4) \<Rightarrow> os_Exit 1 (log_Error err ''problem running manager'' t4)
      | (None, t4) \<Rightarrow> t4)))))))"

subsection \<open>Goroutines and schedules\<close>





subsection \<open>Reading a trace\<close>

text \<open>A watch registration on a controller (the attach step).\<close>

fun is_attach :: "event \<Rightarrow> bool" where
  "is_attach (EvWatchForCAPI k ctl) = True"
| "is_attach (EvWatchForFlux ctl) = True"
| "is_attach ev = False"

text \<open>The start of the CRD install watcher.\<close>

fun is_crd_watch :: "event \<Rightarrow> bool" where
  "is_crd_watch (EvGo (GoWatchCustomResourceDefinition c h)) = True"
| "is_crd_watch ev = False"

text \<open>A signal sent with \<^verbatim>\<open>syscall.Kill\<close> (the restart trigger).\<close>

fun is_kill :: "event \<Rightarrow> bool" where
  "is_kill (EvKill pid sig) = True"
| "is_kill ev = False"

fun is_get :: "event \<Rightarrow> bool" where
  "is_get (EvGet c name) = True"
| "is_get ev = False"


fun is_sleep :: "event \<Rightarrow> bool" where
  "is_sleep (EvSleep secs) = True"
| "is_sleep ev = False"

text \<open>The trace a handler leaves, whether it returned or panicked.\<close>

fun handler_trace :: "(string \<times> event list) + event list \<Rightarrow> event list" where
  "handler_trace (Inl (msg, t)) = t"
| "handler_trace (Inr t) = t"





subsection \<open>Short names used in the statements\<close>

abbreviation capi_crd :: string where
  "capi_crd \<equiv> ''clusters.cluster.x-k8s.io''"

abbreviation flux_crd :: string where
  "flux_crd \<equiv> ''gitrepositories.source.toolkit.fluxcd.io''"

text \<open>What the environment will answer to the next read of a CRD, and to the next
  registration of a watch, after the trace \<open>t\<close>.\<close>

abbreviation next_get :: "env \<Rightarrow> ctx \<Rightarrow> string \<Rightarrow> event list \<Rightarrow> error option" where
  "next_get e c name t \<equiv> get_reply e c name (count_list t (EvGet c name))"

abbreviation next_capi_watch ::
  "env \<Rightarrow> controller_kind \<Rightarrow> controller option \<Rightarrow> event list \<Rightarrow> error option" where
  "next_capi_watch e k ctl t \<equiv> capi_watch_reply e k (count_list t (EvWatchForCAPI k ctl))"

abbreviation next_flux_watch :: "env \<Rightarrow> controller option \<Rightarrow> event list \<Rightarrow> error option" where
  "next_flux_watch e ctl t \<equiv> flux_watch_reply e (count_list t (EvWatchForFlux ctl))"

subsection \<open>Environments used as examples\<close>

text \<open>Both CRDs are installed and every call succeeds.\<close>

definition env_present :: env where
  "env_present =
     \<lparr>get_reply = (\<lambda>c name k. None),
      capi_watch_reply = (\<lambda>kind k. None),
      flux_watch_reply = (\<lambda>k. None),
      getpid = 4242,
      kill_reply = (\<lambda>pid sig. None),
      init_scheme_reply = None,
      new_manager_reply = None,
      setup_reply = (\<lambda>kind. None),
      healthz_reply = None,
      readyz_reply = None,
      indexes_reply = None,
      start_reply = None,
      signal_ctx = CtxLive\<rparr>"

text \<open>No CRD is installed: every read is answered not-found.\<close>

definition env_absent :: env where
  "env_absent = env_present\<lparr>get_reply := (\<lambda>c name k. Some (StatusError StatusReasonNotFound))\<rparr>"

text \<open>The API server cannot be reached: every read fails.\<close>

definition env_unreachable :: env where
  "env_unreachable = env_present\<lparr>get_reply := (\<lambda>c name k. Some ConnectionRefused)\<rparr>"

text \<open>The kernel refuses the signal.\<close>

definition env_kill_fails :: env where
  "env_kill_fails = env_present\<lparr>kill_reply := (\<lambda>pid sig. Some (Errno 1))\<rparr>"

text \<open>The CRD is there at the first read and gone afterwards, and the Flux watch cannot be
  registered.\<close>

definition env_removed_after_first_read :: env where
  "env_removed_after_first_read =
     env_present
       \<lparr>get_reply := (\<lambda>c name k. if k = 0 then None else Some (StatusError StatusReasonNotFound)),
        flux_watch_reply := (\<lambda>k. Some (StatusError StatusReasonForbidden))\<rparr>"

text \<open>The first registration of a watch fails, the second succeeds.\<close>

definition env_attach_fails_once :: env where
  "env_attach_fails_once =
     env_present
       \<lparr>capi_watch_reply := (\<lambda>kind k. if k = 0 then Some (StatusError StatusReasonTimeout) else None),
        flux_watch_reply := (\<lambda>k. if k = 0 then Some (StatusError StatusReasonTimeout) else None)\<rparr>"




section \<open>Facts about the loop\<close>


lemma for_loop_Some_passes:
  assumes "for_loop body s = Some s'"
  shows "\<exists>n. passes n body s = Return s'"
  using assms
proof (induction body s s' rule: for_loop.raw_induct [rotated 1, consumes 1])
  case (1 loop body s s')
  show ?case
  proof (cases "body s")
    case (Continue u)
    with 1(2) have "loop body u = Some s'" by simp
    then obtain n where "passes n body u = Return s'" using 1(1) by blast
    with Continue have "passes (Suc n) body s = Return s'" by simp
    then show ?thesis by blast
  next
    case (Return u)
    with 1(2) have "passes (Suc 0) body s = Return s'" by simp
    then show ?thesis by blast
  qed
qed

text \<open>A loop whose body keeps an invariant and never returns under it runs forever.\<close>

lemma for_loop_never_returns:
  assumes step: "\<And>s. I s \<Longrightarrow> \<exists>s'. body s = Continue s' \<and> I s'"
    and start: "I s"
  shows "for_loop body s = None"
proof -
  have run: "\<exists>u. passes n body s = Continue u \<and> I u" for n
    using start
  proof (induction n arbitrary: s)
    case 0
    then show ?case by simp
  next
    case (Suc n)
    from step [OF Suc.prems] obtain s1 where s1: "body s = Continue s1" "I s1" by blast
    from Suc.IH [OF s1(2)] s1(1) show ?case by simp
  qed
  show ?thesis
  proof (cases "for_loop body s")
    case None
    then show ?thesis .
  next
    case (Some s')
    from for_loop_Some_passes [OF Some] obtain n where "passes n body s = Return s'" ..
    with run [of n] show ?thesis by simp
  qed
qed

section \<open>A probe that fails\<close>

text \<open>A pass whose probe fails with an error other than not-found comes back to the top
  of the loop: it counts the failure and, while fewer than \<open>maxRetries\<close> were counted,
  logs it and sleeps one second.\<close>

lemma capi_pass_probe_error:
  assumes "next_get e c capi_crd (trace s) = Some err" and "\<not> IsNotFound err"
  shows "capi_pass e c cpr cpc pr pc csr csc s =
     Continue
       (if retries s <s maxRetries then
          \<lparr>retries = retries s + 1,
           trace = trace s @ [EvGet c capi_crd,
             EvInfo ''failed to verify if CAPI is present: %v'' (Some err), EvSleep 1]\<rparr>
        else \<lparr>retries = retries s + 1, trace = trace s @ [EvGet c capi_crd]\<rparr>)"
  using assms
  by (simp add: capi_pass_def isCAPIInstalled_def client_Get_def log_Info_def time_Sleep_def)

lemma flux_pass_probe_error:
  assumes "next_get e c flux_crd (trace s) = Some err" and "\<not> IsNotFound err"
  shows "flux_pass e c csr csc s =
     Continue
       (if retries s <s maxRetries then
          \<lparr>retries = retries s + 1,
           trace = trace s @ [EvGet c flux_crd,
             EvInfo ''failed to verify if Flux is present: %v'' (Some err), EvSleep 1]\<rparr>
        else \<lparr>retries = retries s + 1, trace = trace s @ [EvGet c flux_crd]\<rparr>)"
  using assms
  by (simp add: flux_pass_def isFluxInstalled_def client_Get_def log_Info_def time_Sleep_def)

lemma capi_loop_probe_errors:
  assumes "\<forall>k. \<exists>err. get_reply e c capi_crd k = Some err \<and> \<not> IsNotFound err"
  shows "for_loop (capi_pass e c cpr cpc pr pc csr csc) s = None"
proof (rule for_loop_never_returns [where I = "\<lambda>s. True"])
  fix u :: lstate
  from assms obtain err where "next_get e c capi_crd (trace u) = Some err" "\<not> IsNotFound err"
    by blast
  from capi_pass_probe_error [OF this]
  show "\<exists>s'. capi_pass e c cpr cpc pr pc csr csc u = Continue s' \<and> True" by simp
qed simp

lemma flux_loop_probe_errors:
  assumes "\<forall>k. \<exists>err. get_reply e c flux_crd k = Some err \<and> \<not> IsNotFound err"
  shows "for_loop (flux_pass e c csr csc) s = None"
proof (rule for_loop_never_returns [where I = "\<lambda>s. True"])
  fix u :: lstate
  from assms obtain err where "next_get e c flux_crd (trace u) = Some err" "\<not> IsNotFound err"
    by blast
  from flux_pass_probe_error [OF this]
  show "\<exists>s'. flux_pass e c csr csc u = Continue s' \<and> True" by simp
qed simp

section \<open>The presence prober\<close>

text \<open>
  Claim C2. Each prober makes exactly one point read of its CRD and adds nothing else to
  the trace (no sleep, no second read). A successful read gives \<^verbatim>\<open>(true, nil)\<close>; a
  not-found error gives \<^verbatim>\<open>(false, nil)\<close>; any other error gives \<^verbatim>\<open>(false, err)\<close>.
\<close>

theorem prober_one_read_classified:
  "(get_reply e c ''clusters.cluster.x-k8s.io'' (count_list t (EvGet c ''clusters.cluster.x-k8s.io'')) = None \<longrightarrow>
      isCAPIInstalled e c t = ((True, None), t @ [EvGet c ''clusters.cluster.x-k8s.io'']))
   \<and> (\<forall>err. get_reply e c ''clusters.cluster.x-k8s.io'' (count_list t (EvGet c ''clusters.cluster.x-k8s.io'')) = Some err \<longrightarrow>
      isCAPIInstalled e c t =
        ((False, if IsNotFound err then None else Some err), t @ [EvGet c ''clusters.cluster.x-k8s.io'']))
   \<and> (get_reply e c ''gitrepositories.source.toolkit.fluxcd.io'' (count_list t (EvGet c ''gitrepositories.source.toolkit.fluxcd.io'')) = None \<longrightarrow>
      isFluxInstalled e c t = ((True, None), t @ [EvGet c ''gitrepositories.source.toolkit.fluxcd.io'']))
   \<and> (\<forall>err. get_reply e c ''gitrepositories.source.toolkit.fluxcd.io'' (count_list t (EvGet c ''gitrepositories.source.toolkit.fluxcd.io'')) = Some err \<longrightarrow>
      isFluxInstalled e c t =
        ((False, if IsNotFound err then None else Some err), t @ [EvGet c ''gitrepositories.source.toolkit.fluxcd.io'']))"
  by (simp add: isCAPIInstalled_def isFluxInstalled_def client_Get_def)

theorem prober_one_read_classified_witness:
  "isCAPIInstalled env_present CtxLive [] = ((True, None), [EvGet CtxLive ''clusters.cluster.x-k8s.io''])
   \<and> isFluxInstalled env_present CtxLive [] =
       ((True, None), [EvGet CtxLive ''gitrepositories.source.toolkit.fluxcd.io''])
   \<and> isCAPIInstalled env_absent CtxLive [] = ((False, None), [EvGet CtxLive ''clusters.cluster.x-k8s.io''])
   \<and> isFluxInstalled env_absent CtxLive [] =
       ((False, None), [EvGet CtxLive ''gitrepositories.source.toolkit.fluxcd.io''])
   \<and> isCAPIInstalled env_unreachable CtxLive [] =
       ((False, Some ConnectionRefused), [EvGet CtxLive ''clusters.cluster.x-k8s.io''])
   \<and> isFluxInstalled env_unreachable CtxLive [] =
       ((False, Some ConnectionRefused), [EvGet CtxLive ''gitrepositories.source.toolkit.fluxcd.io''])"
  using prober_one_read_classified [of env_present CtxLive "[]"]
    prober_one_read_classified [of env_absent CtxLive "[]"]
    prober_one_read_classified [of env_unreachable CtxLive "[]"]
  by (simp add: env_present_def env_absent_def env_unreachable_def)


section \<open>A capability that is absent at the first probe\<close>

text \<open>
  Claim C4. When the first probe of a pipeline is answered not-found, the pipeline
  returns after starting the CRD install watcher once, with the handler of its own API
  group, and registers no watch on any controller.
\<close>

theorem absent_first_starts_watcher_only:
  "(\<forall>err. get_reply e c ''clusters.cluster.x-k8s.io'' 0 = Some err \<and> IsNotFound err \<longrightarrow>
      (\<exists>tr. capiWatchers e c cpr cpc pr pc csr csc [] = Some tr
         \<and> tr = [EvGet c ''clusters.cluster.x-k8s.io'',
                 EvInfo ''CAPI currently not present. Starting CRD watcher'' None,
                 EvGo (GoWatchCustomResourceDefinition c CapiCRDHandler)]
         \<and> filter is_crd_watch tr = [EvGo (GoWatchCustomResourceDefinition c CapiCRDHandler)]
         \<and> filter is_attach tr = []))
   \<and> (\<forall>err. get_reply e c ''gitrepositories.source.toolkit.fluxcd.io'' 0 = Some err \<and> IsNotFound err \<longrightarrow>
      (\<exists>tr. fluxWatchers e c csr csc [] = Some tr
         \<and> tr = [EvGet c ''gitrepositories.source.toolkit.fluxcd.io'',
                 EvInfo ''Flux currently not present. Starting CRD watcher'' None,
                 EvGo (GoWatchCustomResourceDefinition c FluxCRDHandler)]
         \<and> filter is_crd_watch tr = [EvGo (GoWatchCustomResourceDefinition c FluxCRDHandler)]
         \<and> filter is_attach tr = []))"
  unfolding capiWatchers_def fluxWatchers_def
  by (subst (1 2) for_loop.simps)
     (simp add: capi_pass_def flux_pass_def isCAPIInstalled_def isFluxInstalled_def
        client_Get_def log_Info_def go_def)

theorem absent_first_starts_watcher_only_witness:
  "capiWatchers env_absent CtxLive None None None None ClusterSummaryReconciler None [] =
     Some [EvGet CtxLive ''clusters.cluster.x-k8s.io'',
           EvInfo ''CAPI currently not present. Starting CRD watcher'' None,
           EvGo (GoWatchCustomResourceDefinition CtxLive CapiCRDHandler)]
   \<and> fluxWatchers env_absent CtxLive ClusterSummaryReconciler None [] =
     Some [EvGet CtxLive ''gitrepositories.source.toolkit.fluxcd.io'',
           EvInfo ''Flux currently not present. Starting CRD watcher'' None,
           EvGo (GoWatchCustomResourceDefinition CtxLive FluxCRDHandler)]"
  using absent_first_starts_watcher_only
    [where e = env_absent and c = CtxLive and cpr = None and cpc = None and pr = None
       and pc = None and csr = ClusterSummaryReconciler and csc = None]
  by (simp add: env_absent_def env_present_def)


section \<open>The CRD handlers\<close>

text \<open>
  Claim C5. A handler called for a CRD of another API group does nothing: it returns and
  the trace is unchanged. Called for a CRD of its own group it sends \<open>SIGTERM\<close> to
  the process's own pid, once.
\<close>

theorem handler_filters_by_group:
  "(Group gvk \<noteq> clusterv1_Group \<longrightarrow> capiCRDHandler e gvk t = Inr t)
   \<and> (Group gvk = clusterv1_Group \<longrightarrow>
        handler_trace (capiCRDHandler e gvk t) = t @ [EvKill (getpid e) SIGTERM])
   \<and> (Group gvk \<noteq> sourcev1_Group \<longrightarrow> fluxCRDHandler e gvk t = Inr t)
   \<and> (Group gvk = sourcev1_Group \<longrightarrow>
        handler_trace (fluxCRDHandler e gvk t) = t @ [EvKill (getpid e) SIGTERM])"
  by (simp add: capiCRDHandler_def fluxCRDHandler_def syscall_Kill_def split: option.split)

theorem handler_filters_by_group_witness:
  "capiCRDHandler env_present \<lparr>Group = ''source.toolkit.fluxcd.io'', Version = ''v1'', Kind = ''GitRepository''\<rparr> [] = Inr []
   \<and> handler_trace (capiCRDHandler env_present \<lparr>Group = ''cluster.x-k8s.io'', Version = ''v1beta1'', Kind = ''Cluster''\<rparr> [])
       = [EvKill 4242 SIGTERM]
   \<and> fluxCRDHandler env_present \<lparr>Group = ''cluster.x-k8s.io'', Version = ''v1beta1'', Kind = ''Cluster''\<rparr> [] = Inr []
   \<and> handler_trace (fluxCRDHandler env_present \<lparr>Group = ''source.toolkit.fluxcd.io'', Version = ''v1'', Kind = ''GitRepository''\<rparr> [])
       = [EvKill 4242 SIGTERM]"
  using handler_filters_by_group [of "\<lparr>Group = ''source.toolkit.fluxcd.io'', Version = ''v1'', Kind = ''GitRepository''\<rparr>" env_present "[]"]
    handler_filters_by_group [of "\<lparr>Group = ''cluster.x-k8s.io'', Version = ''v1beta1'', Kind = ''Cluster''\<rparr>" env_present "[]"]
  by (simp add: clusterv1_Group_def sourcev1_Group_def env_present_def)


text \<open>
  Claim C9. When the group matches and \<^verbatim>\<open>syscall.Kill\<close> returns an error, the handler
  panics with \<^verbatim>\<open>kill -TERM failed\<close>; when the signal is delivered, it returns normally.
\<close>

theorem kill_failure_panics:
  "(Group gvk = clusterv1_Group \<longrightarrow>
      (\<forall>killErr. kill_reply e (getpid e) SIGTERM = Some killErr \<longrightarrow>
         capiCRDHandler e gvk t = Inl (''kill -TERM failed'', t @ [EvKill (getpid e) SIGTERM]))
      \<and> (kill_reply e (getpid e) SIGTERM = None \<longrightarrow>
         capiCRDHandler e gvk t = Inr (t @ [EvKill (getpid e) SIGTERM])))
   \<and> (Group gvk = sourcev1_Group \<longrightarrow>
      (\<forall>killErr. kill_reply e (getpid e) SIGTERM = Some killErr \<longrightarrow>
         fluxCRDHandler e gvk t = Inl (''kill -TERM failed'', t @ [EvKill (getpid e) SIGTERM]))
      \<and> (kill_reply e (getpid e) SIGTERM = None \<longrightarrow>
         fluxCRDHandler e gvk t = Inr (t @ [EvKill (getpid e) SIGTERM])))"
  by (simp add: capiCRDHandler_def fluxCRDHandler_def syscall_Kill_def)

theorem kill_failure_panics_witness:
  "capiCRDHandler env_kill_fails \<lparr>Group = ''cluster.x-k8s.io'', Version = ''v1beta1'', Kind = ''Cluster''\<rparr> []
     = Inl (''kill -TERM failed'', [EvKill 4242 SIGTERM])
   \<and> capiCRDHandler env_present \<lparr>Group = ''cluster.x-k8s.io'', Version = ''v1beta1'', Kind = ''Cluster''\<rparr> []
     = Inr [EvKill 4242 SIGTERM]
   \<and> fluxCRDHandler env_kill_fails \<lparr>Group = ''source.toolkit.fluxcd.io'', Version = ''v1'', Kind = ''GitRepository''\<rparr> []
     = Inl (''kill -TERM failed'', [EvKill 4242 SIGTERM])
   \<and> fluxCRDHandler env_present \<lparr>Group = ''source.toolkit.fluxcd.io'', Version = ''v1'', Kind = ''GitRepository''\<rparr> []
     = Inr [EvKill 4242 SIGTERM]"
  using kill_failure_panics [of "\<lparr>Group = ''cluster.x-k8s.io'', Version = ''v1beta1'', Kind = ''Cluster''\<rparr>" env_kill_fails "[]"]
    kill_failure_panics [of "\<lparr>Group = ''cluster.x-k8s.io'', Version = ''v1beta1'', Kind = ''Cluster''\<rparr>" env_present "[]"]
    kill_failure_panics [of "\<lparr>Group = ''source.toolkit.fluxcd.io'', Version = ''v1'', Kind = ''GitRepository''\<rparr>" env_kill_fails "[]"]
    kill_failure_panics [of "\<lparr>Group = ''source.toolkit.fluxcd.io'', Version = ''v1'', Kind = ''GitRepository''\<rparr>" env_present "[]"]
  by (simp add: clusterv1_Group_def sourcev1_Group_def env_present_def env_kill_fails_def)

section \<open>The retry bound\<close>

text \<open>
  Claim C1 asks that a prober failing on every call makes the loop give up after
  \<open>maxRetries\<close> attempts and take the absent path. The loop has no such exit: the
  bound only guards the log line and the sleep. When every probe fails with an error
  other than not-found, neither pipeline ever returns.
\<close>

theorem transient_on_every_probe_never_returns:
  "((\<forall>k. \<exists>err. get_reply e c capi_crd k = Some err \<and> \<not> IsNotFound err) \<longrightarrow>
      capiWatchers e c cpr cpc pr pc csr csc t = None)
   \<and> ((\<forall>k. \<exists>err. get_reply e c flux_crd k = Some err \<and> \<not> IsNotFound err) \<longrightarrow>
      fluxWatchers e c csr csc t = None)"
  by (simp add: capiWatchers_def fluxWatchers_def capi_loop_probe_errors flux_loop_probe_errors)

theorem transient_on_every_probe_never_returns_witness:
  "capiWatchers env_unreachable CtxLive None None None None ClusterSummaryReconciler None [] = None
   \<and> fluxWatchers env_unreachable CtxLive ClusterSummaryReconciler None [] = None"
  using transient_on_every_probe_never_returns
    [where e = env_unreachable and c = CtxLive and cpr = None and cpc = None and pr = None
       and pc = None and csr = ClusterSummaryReconciler and csc = None and t = "[]"]
  by (simp add: env_unreachable_def env_present_def)

text \<open>With an API server that cannot be reached, after 25 passes the CAPI loop is still
  running: it has probed 25 times and slept 20 times.\<close>

lemma unreachable_25_passes:
  "(case passes 25 (capi_pass env_unreachable CtxLive None None None None ClusterSummaryReconciler None)
           \<lparr>retries = 0, trace = []\<rparr> of
      Continue s \<Rightarrow> retries s = 25 \<and> length (filter is_get (trace s)) = 25
         \<and> length (filter is_sleep (trace s)) = 20
    | Return s \<Rightarrow> False)"
  by code_simp

section \<open>Shutdown\<close>

subsection \<open>The same pipeline under another context\<close>


















subsection \<open>The claim\<close>




section \<open>A capability that is present at the first probe\<close>

text \<open>
  Claim C3 asks that a first probe answered present means one attach and never a CRD
  watcher. It fails on the code: a failed registration sends the loop back to the probe,
  and when the CRD is gone by then the watcher is started after all.
\<close>

theorem present_first_then_watcher_started:
  "get_reply env_removed_after_first_read CtxLive flux_crd 0 = None
   \<and> fluxWatchers env_removed_after_first_read CtxLive ClusterSummaryReconciler None [] =
       Some [EvGet CtxLive flux_crd, EvInfo ''Flux present.'' None, EvWatchForFlux None,
             EvGet CtxLive flux_crd,
             EvInfo ''Flux currently not present. Starting CRD watcher'' None,
             EvGo (GoWatchCustomResourceDefinition CtxLive FluxCRDHandler)]"
  by code_simp

text \<open>
  Claim C3, amended. When the first probe is answered present and every registration the
  pass makes succeeds, the pipeline returns after one read; it has registered the CAPI
  watch once on every reconciler that is not nil (ClusterSummary always), or the Flux
  watch once; it has started no CRD watcher and sent no signal.
\<close>

theorem present_first_attach_succeeds:
  "(next_get e c capi_crd [] = None
      \<and> (cpr \<noteq> None \<longrightarrow> capi_watch_reply e ClusterProfileKind 0 = None)
      \<and> (pr \<noteq> None \<longrightarrow> capi_watch_reply e ProfileKind 0 = None)
      \<and> capi_watch_reply e ClusterSummaryKind 0 = None \<longrightarrow>
      (\<exists>tr. capiWatchers e c cpr cpc pr pc csr csc [] = Some tr
         \<and> filter is_get tr = [EvGet c capi_crd]
         \<and> filter is_attach tr =
             (if cpr \<noteq> None then [EvWatchForCAPI ClusterProfileKind cpc] else [])
             @ (if pr \<noteq> None then [EvWatchForCAPI ProfileKind pc] else [])
             @ [EvWatchForCAPI ClusterSummaryKind csc]
         \<and> filter is_crd_watch tr = []
         \<and> filter is_kill tr = []))
   \<and> (next_get e c flux_crd [] = None \<and> flux_watch_reply e 0 = None \<longrightarrow>
      (\<exists>tr. fluxWatchers e c csr csc [] = Some tr
         \<and> filter is_get tr = [EvGet c flux_crd]
         \<and> filter is_attach tr = [EvWatchForFlux csc]
         \<and> filter is_crd_watch tr = []
         \<and> filter is_kill tr = []))"
  unfolding capiWatchers_def fluxWatchers_def
  by (subst (1 2) for_loop.simps)
     (simp add: capi_pass_def capi_present_def flux_pass_def isCAPIInstalled_def
        isFluxInstalled_def client_Get_def log_Info_def WatchForCAPI_def WatchForFlux_def)

theorem present_first_attach_succeeds_witness:
  "(\<exists>tr. capiWatchers env_present CtxLive (Some ClusterProfileReconciler) (Some (Controller ClusterProfileKind))
            (Some ProfileReconciler) (Some (Controller ProfileKind))
            ClusterSummaryReconciler (Some (Controller ClusterSummaryKind)) [] = Some tr
      \<and> filter is_get tr = [EvGet CtxLive capi_crd]
      \<and> filter is_attach tr =
          [EvWatchForCAPI ClusterProfileKind (Some (Controller ClusterProfileKind)),
           EvWatchForCAPI ProfileKind (Some (Controller ProfileKind)),
           EvWatchForCAPI ClusterSummaryKind (Some (Controller ClusterSummaryKind))]
      \<and> filter is_crd_watch tr = []
      \<and> filter is_kill tr = [])
   \<and> (\<exists>tr. fluxWatchers env_present CtxLive ClusterSummaryReconciler (Some (Controller ClusterSummaryKind)) [] = Some tr
      \<and> filter is_get tr = [EvGet CtxLive flux_crd]
      \<and> filter is_attach tr = [EvWatchForFlux (Some (Controller ClusterSummaryKind))]
      \<and> filter is_crd_watch tr = []
      \<and> filter is_kill tr = [])"
  using present_first_attach_succeeds
    [where e = env_present and c = CtxLive and cpr = "Some ClusterProfileReconciler"
       and cpc = "Some (Controller ClusterProfileKind)" and pr = "Some ProfileReconciler"
       and pc = "Some (Controller ProfileKind)" and csr = ClusterSummaryReconciler
       and csc = "Some (Controller ClusterSummaryKind)"]
  by (simp add: env_present_def)

section \<open>A registration that fails\<close>

text \<open>
  Claim C6 asks that a failed attach is final: no new probe, no second attempt. It fails
  on the code: when the first registration of the Flux watch fails, the pipeline reads
  the CRD again and registers the watch a second time.
\<close>

theorem attach_failure_is_retried:
  "fluxWatchers env_attach_fails_once CtxLive ClusterSummaryReconciler
       (Some (Controller ClusterSummaryKind)) [] =
     Some [EvGet CtxLive flux_crd, EvInfo ''Flux present.'' None,
           EvWatchForFlux (Some (Controller ClusterSummaryKind)),
           EvGet CtxLive flux_crd, EvInfo ''Flux present.'' None,
           EvWatchForFlux (Some (Controller ClusterSummaryKind))]"
  by code_simp

text \<open>
  Claim C6, amended. A failed registration is not fatal and not final. The pass ends with
  \<^verbatim>\<open>continue\<close>: the loop goes back to the probe at once, without a sleep and without
  counting a retry, and a later pass that finds the capability present registers again
  from the first reconciler. A failure on the ClusterProfile or Profile reconciler is
  logged.
\<close>

theorem attach_failure_continues:
  "(next_get e c flux_crd (trace s) = None \<longrightarrow>
      (\<forall>err. next_flux_watch e csc (trace s) = Some err \<longrightarrow>
         (\<exists>new. flux_pass e c csr csc s = Continue (s\<lparr>trace := trace s @ new\<rparr>)
            \<and> filter is_get new = [EvGet c flux_crd]
            \<and> filter is_attach new = [EvWatchForFlux csc]
            \<and> filter is_sleep new = []
            \<and> filter is_crd_watch new = [])))
   \<and> (next_get e c capi_crd (trace s) = None \<longrightarrow>
      (\<forall>err. cpr \<noteq> None \<and> next_capi_watch e ClusterProfileKind cpc (trace s) = Some err \<longrightarrow>
         capi_pass e c cpr cpc pr pc csr csc s =
           Continue (s\<lparr>trace := trace s @
             [EvGet c capi_crd, EvInfo ''CAPI present.'' None,
              EvInfo ''start clusterProfile CAPI watcher.'' None,
              EvWatchForCAPI ClusterProfileKind cpc,
              EvInfo ''failed to start clusterProfile CAPI watcher: %v'' (Some err)]\<rparr>))
      \<and> (\<forall>err. (cpr \<noteq> None \<longrightarrow> next_capi_watch e ClusterProfileKind cpc (trace s) = None)
            \<and> pr \<noteq> None \<and> next_capi_watch e ProfileKind pc (trace s) = Some err \<longrightarrow>
         capi_pass e c cpr cpc pr pc csr csc s =
           Continue (s\<lparr>trace := trace s @
             [EvGet c capi_crd, EvInfo ''CAPI present.'' None]
             @ (if cpr \<noteq> None
                then [EvInfo ''start clusterProfile CAPI watcher.'' None,
                      EvWatchForCAPI ClusterProfileKind cpc]
                else [])
             @ [EvInfo ''start profile CAPI watcher.'' None,
                EvWatchForCAPI ProfileKind pc,
                EvInfo ''failed to start profile CAPI watcher: %v'' (Some err)]\<rparr>))
      \<and> (\<forall>err. (cpr \<noteq> None \<longrightarrow> next_capi_watch e ClusterProfileKind cpc (trace s) = None)
            \<and> (pr \<noteq> None \<longrightarrow> next_capi_watch e ProfileKind pc (trace s) = None)
            \<and> next_capi_watch e ClusterSummaryKind csc (trace s) = Some err \<longrightarrow>
         (\<exists>new. capi_pass e c cpr cpc pr pc csr csc s = Continue (s\<lparr>trace := trace s @ new\<rparr>)
            \<and> filter is_get new = [EvGet c capi_crd]
            \<and> filter is_attach new =
                (if cpr \<noteq> None then [EvWatchForCAPI ClusterProfileKind cpc] else [])
                @ (if pr \<noteq> None then [EvWatchForCAPI ProfileKind pc] else [])
                @ [EvWatchForCAPI ClusterSummaryKind csc]
            \<and> filter is_sleep new = []
            \<and> filter is_crd_watch new = [])))"
  by (auto simp add: capi_pass_def capi_present_def flux_pass_def isCAPIInstalled_def
        isFluxInstalled_def client_Get_def log_Info_def WatchForCAPI_def WatchForFlux_def)

theorem attach_failure_continues_witness:
  "(\<exists>new. flux_pass env_attach_fails_once CtxLive ClusterSummaryReconciler
             (Some (Controller ClusterSummaryKind)) \<lparr>retries = 0, trace = []\<rparr> =
           Continue \<lparr>retries = 0, trace = new\<rparr>
      \<and> filter is_get new = [EvGet CtxLive flux_crd]
      \<and> filter is_attach new = [EvWatchForFlux (Some (Controller ClusterSummaryKind))]
      \<and> filter is_sleep new = []
      \<and> filter is_crd_watch new = [])
   \<and> capi_pass env_attach_fails_once CtxLive
        (Some ClusterProfileReconciler) (Some (Controller ClusterProfileKind))
        None None ClusterSummaryReconciler (Some (Controller ClusterSummaryKind))
        \<lparr>retries = 0, trace = []\<rparr> =
     Continue \<lparr>retries = 0,
       trace = [EvGet CtxLive capi_crd, EvInfo ''CAPI present.'' None,
                EvInfo ''start clusterProfile CAPI watcher.'' None,
                EvWatchForCAPI ClusterProfileKind (Some (Controller ClusterProfileKind)),
                EvInfo ''failed to start clusterProfile CAPI watcher: %v''
                  (Some (StatusError StatusReasonTimeout))]\<rparr>
   \<and> capi_pass env_attach_fails_once CtxLive
        None None (Some ProfileReconciler) (Some (Controller ProfileKind))
        ClusterSummaryReconciler (Some (Controller ClusterSummaryKind))
        \<lparr>retries = 0, trace = []\<rparr> =
     Continue \<lparr>retries = 0,
       trace = [EvGet CtxLive capi_crd, EvInfo ''CAPI present.'' None,
                EvInfo ''start profile CAPI watcher.'' None,
                EvWatchForCAPI ProfileKind (Some (Controller ProfileKind)),
                EvInfo ''failed to start profile CAPI watcher: %v''
                  (Some (StatusError StatusReasonTimeout))]\<rparr>
   \<and> (\<exists>new. capi_pass env_attach_fails_once CtxLive None None None None
             ClusterSummaryReconciler (Some (Controller ClusterSummaryKind))
             \<lparr>retries = 0, trace = []\<rparr> =
           Continue \<lparr>retries = 0, trace = new\<rparr>
      \<and> filter is_get new = [EvGet CtxLive capi_crd]
      \<and> filter is_attach new =
          [EvWatchForCAPI ClusterSummaryKind (Some (Controller ClusterSummaryKind))]
      \<and> filter is_sleep new = []
      \<and> filter is_crd_watch new = [])"
  using attach_failure_continues
      [where e = env_attach_fails_once and c = CtxLive and s = "\<lparr>retries = 0, trace = []\<rparr>"
         and cpr = "Some ClusterProfileReconciler" and cpc = "Some (Controller ClusterProfileKind)"
         and pr = None and pc = None
         and csr = ClusterSummaryReconciler and csc = "Some (Controller ClusterSummaryKind)"]
    attach_failure_continues
      [where e = env_attach_fails_once and c = CtxLive and s = "\<lparr>retries = 0, trace = []\<rparr>"
         and cpr = None and cpc = None
         and pr = "Some ProfileReconciler" and pc = "Some (Controller ProfileKind)"
         and csr = ClusterSummaryReconciler and csc = "Some (Controller ClusterSummaryKind)"]
    attach_failure_continues
      [where e = env_attach_fails_once and c = CtxLive and s = "\<lparr>retries = 0, trace = []\<rparr>"
         and cpr = None and cpc = None and pr = None and pc = None
         and csr = ClusterSummaryReconciler and csc = "Some (Controller ClusterSummaryKind)"]
  by (simp add: env_attach_fails_once_def env_present_def)

section \<open>Running with a shard key\<close>

text \<open>
  Claim C10. With a shard key set, main creates neither the ClusterProfile nor the
  Profile reconciler or controller: the four variables stay nil, and that is what the CAPI
  pipeline is started with. With both reconcilers nil, a pass that finds CAPI present
  registers the watch of the ClusterSummary controller only; no method is called on a nil
  reconciler.
\<close>

theorem shard_key_leaves_profile_reconcilers_nil:
  "shardKey \<noteq> [] \<longrightarrow>
     profile_controllers e shardKey t = Inr ((None, None, None, None), t)
     \<and> (\<forall>c cpr cpc pr pc csr csc.
           EvGo (GoCapiWatchers c cpr cpc pr pc csr csc) \<in> set (main e shardKey) \<longrightarrow>
           cpr = None \<and> cpc = None \<and> pr = None \<and> pc = None)
     \<and> (\<forall>c s csr csc. next_get e c capi_crd (trace s) = None \<longrightarrow>
           capi_pass e c None None None None csr csc s =
             (case next_capi_watch e ClusterSummaryKind csc (trace s) of
                None \<Rightarrow> Return | Some err \<Rightarrow> Continue)
               (s\<lparr>trace := trace s @
                  [EvGet c capi_crd, EvInfo ''CAPI present.'' None,
                   EvWatchForCAPI ClusterSummaryKind csc]\<rparr>))"
proof
  assume k: "shardKey \<noteq> []"
  have pc: "profile_controllers e shardKey u = Inr ((None, None, None, None), u)" for u
    using k by (simp add: profile_controllers_def)
  have spawned: "cpr = None \<and> cpc = None \<and> pr = None \<and> pc = None"
    if "EvGo (GoCapiWatchers c cpr cpc pr pc csr csc) \<in> set (main e shardKey)"
    for c cpr cpc pr pc csr csc
    using that
    by (auto simp add: main_def pc SetupWithManager_def setupChecks_def setupIndexes_def
          mgr_Start_def startWatchers_def go_def log_Info_def log_Error_def os_Exit_def Let_def
        split: option.splits sum.splits prod.splits if_splits)
  have pass: "capi_pass e c None None None None csr csc s =
             (case next_capi_watch e ClusterSummaryKind csc (trace s) of
                None \<Rightarrow> Return | Some err \<Rightarrow> Continue)
               (s\<lparr>trace := trace s @
                  [EvGet c capi_crd, EvInfo ''CAPI present.'' None,
                   EvWatchForCAPI ClusterSummaryKind csc]\<rparr>)"
    if "next_get e c capi_crd (trace s) = None" for c s csr csc
    using that
    by (simp add: capi_pass_def capi_present_def isCAPIInstalled_def
          client_Get_def log_Info_def WatchForCAPI_def split: option.split)
  from pc spawned pass
  show "profile_controllers e shardKey t = Inr ((None, None, None, None), t)
     \<and> (\<forall>c cpr cpc pr pc csr csc.
           EvGo (GoCapiWatchers c cpr cpc pr pc csr csc) \<in> set (main e shardKey) \<longrightarrow>
           cpr = None \<and> cpc = None \<and> pr = None \<and> pc = None)
     \<and> (\<forall>c s csr csc. next_get e c capi_crd (trace s) = None \<longrightarrow>
           capi_pass e c None None None None csr csc s =
             (case next_capi_watch e ClusterSummaryKind csc (trace s) of
                None \<Rightarrow> Return | Some err \<Rightarrow> Continue)
               (s\<lparr>trace := trace s @
                  [EvGet c capi_crd, EvInfo ''CAPI present.'' None,
                   EvWatchForCAPI ClusterSummaryKind csc]\<rparr>))"
    by blast
qed

theorem shard_key_leaves_profile_reconcilers_nil_witness:
  "profile_controllers env_present ''shard1'' [] = Inr ((None, None, None, None), [])
   \<and> main env_present ''shard1'' =
       [EvSetupWithManager ClusterSummaryKind,
        EvGo (GoCapiWatchers CtxLive None None None None ClusterSummaryReconciler
                (Some (Controller ClusterSummaryKind))),
        EvGo (GoFluxWatchers CtxLive ClusterSummaryReconciler
                (Some (Controller ClusterSummaryKind))),
        EvInfo ''starting manager'' None, EvStartManager CtxLive]
   \<and> capi_pass env_present CtxLive None None None None ClusterSummaryReconciler
         (Some (Controller ClusterSummaryKind)) \<lparr>retries = 0, trace = []\<rparr> =
       Return \<lparr>retries = 0,
         trace = [EvGet CtxLive capi_crd, EvInfo ''CAPI present.'' None,
                  EvWatchForCAPI ClusterSummaryKind (Some (Controller ClusterSummaryKind))]\<rparr>"
proof -
  have m: "main env_present ''shard1'' =
       [EvSetupWithManager ClusterSummaryKind,
        EvGo (GoCapiWatchers CtxLive None None None None ClusterSummaryReconciler
                (Some (Controller ClusterSummaryKind))),
        EvGo (GoFluxWatchers CtxLive ClusterSummaryReconciler
                (Some (Controller ClusterSummaryKind))),
        EvInfo ''starting manager'' None, EvStartManager CtxLive]"
    by code_simp
  have k: "''shard1'' \<noteq> []" by simp
  from shard_key_leaves_profile_reconcilers_nil
      [where e = env_present and shardKey = "''shard1''" and t = "[]"] k
  show ?thesis
    using m by (simp add: env_present_def)
qed

section \<open>The pipelines and the start of the manager\<close>

subsection \<open>Schedules\<close>












subsection \<open>The claim\<close>




end
